theory Spec2Isabelle
  imports Main
begin

section \<open>Python values, strings and errors\<close>

text \<open>
  The module \<^verbatim>\<open>frappe/query_builder/terms.py\<close> renders values into SQL text.
  A Python \<^verbatim>\<open>str\<close> is modelled as a \<^typ>\<open>string\<close>: a list of characters with
  code points below 256. On these the regular expression class \<^verbatim>\<open>\d\<close> matches exactly
  the ten characters \<^verbatim>\<open>0\<close> .. \<^verbatim>\<open>9\<close>.
\<close>

datatype py_error = IndexError

text \<open>
  The payload kinds a value wrapper can hold. A float is carried as mantissa and
  exponent, a date as year, month, day, a time as hour, minute, second, microsecond,
  a timedelta as days, seconds, microseconds, a datetime as date followed by time.
\<close>

datatype pyval =
    VNone
  | VBool bool
  | VInt int
  | VFloat int int
  | VStr string
  | VDate nat nat nat
  | VTime nat nat nat nat
  | VTimedelta int int int
  | VDatetime nat nat nat nat nat nat nat

definition sq :: char where
  "sq = CHR 0x27"

definition newline :: char where
  "newline = CHR 0x0A"

definition is_digit :: "char \<Rightarrow> bool" where
  "is_digit c = (48 \<le> (of_char c :: nat) \<and> (of_char c :: nat) \<le> 57)"

definition digit_char :: "nat \<Rightarrow> char" where
  "digit_char d = char_of (48 + d)"

text \<open>\<^verbatim>\<open>str(n)\<close> for a non-negative integer: its decimal digits.\<close>

fun str_nat :: "nat \<Rightarrow> string" where
  "str_nat n = (if n < 10 then [digit_char n] else str_nat (n div 10) @ [digit_char (n mod 10)])"

declare str_nat.simps [simp del]

definition str_int :: "int \<Rightarrow> string" where
  "str_int i = (if i < 0 then CHR ''-'' # str_nat (nat (- i)) else str_nat (nat i))"

text \<open>\<^verbatim>\<open>s.startswith(p)\<close>.\<close>

definition startswith :: "string \<Rightarrow> string \<Rightarrow> bool" where
  "startswith s p = (take (length p) s = p)"

text \<open>
  The slice \<^verbatim>\<open>s[i:j]\<close>: a negative index counts from the end, and both ends are
  clamped to the string, so a slice never raises.
\<close>

definition slice_index :: "nat \<Rightarrow> int \<Rightarrow> nat" where
  "slice_index n i = (if i < 0 then nat (max 0 (int n + i)) else min n (nat i))"

definition py_slice :: "'a list \<Rightarrow> int \<Rightarrow> int \<Rightarrow> 'a list" where
  "py_slice s i j =
     (let a = slice_index (length s) i; b = slice_index (length s) j
      in take (b - a) (drop a s))"

text \<open>\<^verbatim>\<open>s.replace(old, new)\<close> for a one-character \<^verbatim>\<open>old\<close>.\<close>

definition str_replace :: "string \<Rightarrow> char \<Rightarrow> string \<Rightarrow> string" where
  "str_replace s old new = concat (map (\<lambda>c. if c = old then new else [c]) s)"

section \<open>NamedParameterWrapper\<close>

text \<open>
  \<^verbatim>\<open>self.parameters\<close> is a Python dict: keys are distinct and kept in insertion
  order, and an assignment to a key already present overwrites its value in place.
\<close>

type_synonym 'v parameters = "(string \<times> 'v) list"

fun dict_set :: "('k \<times> 'v) list \<Rightarrow> 'k \<Rightarrow> 'v \<Rightarrow> ('k \<times> 'v) list" where
  "dict_set [] k v = [(k, v)]"
| "dict_set ((k', v') # kvs) k v =
     (if k' = k then (k, v) # kvs else (k', v') # dict_set kvs k v)"

definition npw_init :: "'v parameters" where
  "npw_init = []"

text \<open>
  \<^verbatim>\<open>NamedParameterWrapper.get_sql\<close>: builds the placeholder from the number of
  entries, stores the value under the placeholder without its first and last two
  characters, and returns the placeholder with the updated dict.
\<close>

definition npw_get_sql :: "'v parameters \<Rightarrow> 'v \<Rightarrow> string \<times> 'v parameters" where
  "npw_get_sql parameters param_value =
     (let param_key = ''%(param'' @ str_nat (length parameters + 1) @ '')s''
      in (param_key, dict_set parameters (py_slice param_key 2 (- 2)) param_value))"

definition npw_get_parameters :: "'v parameters \<Rightarrow> 'v parameters" where
  "npw_get_parameters parameters = parameters"

text \<open>The key and the placeholder of the \<open>n\<close>-th binding.\<close>

definition param_name :: "nat \<Rightarrow> string" where
  "param_name n = ''param'' @ str_nat n"

definition placeholder :: "nat \<Rightarrow> string" where
  "placeholder n = ''%('' @ param_name n @ '')s''"

text \<open>The invariant of a store: its keys are \<open>param1\<close> .. \<open>paramN\<close> in order.\<close>

definition keys_ok :: "'v parameters \<Rightarrow> bool" where
  "keys_ok ps = (map fst ps = map param_name [1 ..< Suc (length ps)])"

section \<open>The conversion heuristic\<close>

text \<open>
  The three patterns of \<^verbatim>\<open>conversion_column_value\<close> are sequences of literal
  characters, \<^verbatim>\<open>\d{n}\<close> and \<^verbatim>\<open>\d+\<close>, anchored by \<^verbatim>\<open>^\<close> and \<^verbatim>\<open>$\<close>.
  \<open>re_match\<close> decides whether a pattern matches a whole string, trying every length
  for \<^verbatim>\<open>\d+\<close>.
\<close>

datatype re_item = Lit char | Digits nat | DigitsPlus

fun re_match :: "re_item list \<Rightarrow> string \<Rightarrow> bool" where
  "re_match [] s = (s = [])"
| "re_match (Lit c # p) [] = False"
| "re_match (Lit c # p) (x # xs) = (x = c \<and> re_match p xs)"
| "re_match (Digits 0 # p) s = re_match p s"
| "re_match (Digits (Suc n) # p) [] = False"
| "re_match (Digits (Suc n) # p) (x # xs) = (is_digit x \<and> re_match (Digits n # p) xs)"
| "re_match (DigitsPlus # p) [] = False"
| "re_match (DigitsPlus # p) (x # xs) =
     (is_digit x \<and> (re_match (DigitsPlus # p) xs \<or> re_match p xs))"

text \<open>
  \<^verbatim>\<open>re.search('^...$', s)\<close> without flags: \<^verbatim>\<open>^\<close> matches at the start only, and
  \<^verbatim>\<open>$\<close> matches at the end of the string and also just before a newline that is
  the last character.
\<close>

definition re_search :: "re_item list \<Rightarrow> string \<Rightarrow> bool" where
  "re_search p s =
     (re_match p s \<or> (s \<noteq> [] \<and> last s = newline \<and> re_match p (butlast s)))"

text \<open>\<^verbatim>\<open>\d{4}-\d{2}-\d{2}\<close>, then \<^verbatim>\<open> \d{2}:\d{2}:\d{2}\<close>, then \<^verbatim>\<open>\.\d+\<close>.\<close>

definition pat_date :: "re_item list" where
  "pat_date = [Digits 4, Lit CHR ''-'', Digits 2, Lit CHR ''-'', Digits 2]"

definition pat_datetime :: "re_item list" where
  "pat_datetime =
     pat_date @ [Lit CHR '' '', Digits 2, Lit CHR '':'', Digits 2, Lit CHR '':'', Digits 2]"

definition pat_datetime_frac :: "re_item list" where
  "pat_datetime_frac = pat_datetime @ [Lit CHR ''.'', DigitsPlus]"

text \<open>The three f-strings that build a constructor call around a text.\<close>

definition fmt_timestamp_ff6 :: "string \<Rightarrow> string" where
  "fmt_timestamp_ff6 v = ''to_timestamp('' @ [sq] @ v @ [sq] @ '', 'yyyy-mm-dd hh24:mi:ss.ff6')''"

definition fmt_timestamp :: "string \<Rightarrow> string" where
  "fmt_timestamp v = ''to_timestamp('' @ [sq] @ v @ [sq] @ '', 'yyyy-mm-dd hh24:mi:ss')''"

definition fmt_date :: "string \<Rightarrow> string" where
  "fmt_date v = ''to_date('' @ [sq] @ v @ [sq] @ '', 'yyyy-mm-dd')''"

section \<open>The environment of the module\<close>

text \<open>
  What the module reads from outside itself is taken as a parameter: the global flag
  \<^verbatim>\<open>frappe.is_oracledb\<close>; the formatters \<^verbatim>\<open>format_timedelta\<close>,
  \<^verbatim>\<open>format_time\<close> and \<^verbatim>\<open>frappe.db.format_datetime\<close>; Python's \<^verbatim>\<open>str\<close> on the
  payload kinds whose text is not modelled here (floats, dates and the temporal kinds);
  and the query-builder library's \<^verbatim>\<open>ValueWrapper.get_value_sql\<close>,
  \<^verbatim>\<open>format_alias_sql\<close>, \<^verbatim>\<open>Function.get_function_sql\<close> (its assembly of the
  call text from the rendered arguments), \<^verbatim>\<open>Schema.get_sql\<close> and
  \<^verbatim>\<open>QueryBuilder.get_sql\<close> (its assembly of the statement text from its rendered
  terms). The keyword arguments other than \<^verbatim>\<open>quote_char\<close>,
  \<^verbatim>\<open>secondary_quote_char\<close> and \<^verbatim>\<open>param_wrapper\<close> reach only these library
  functions and are carried as one value of type \<open>'k\<close>.

  \<open>get_value_sql\<close> takes \<^verbatim>\<open>quote_char\<close>, then \<^verbatim>\<open>secondary_quote_char\<close> and
  \<^verbatim>\<open>param_wrapper\<close> (\<open>None\<close> where the call does not pass them), the other keyword
  arguments and the payload. The payload of a wrapper is never a term of its own, so the
  library function only builds text.
\<close>

record 'k env =
  is_oracledb :: bool
  format_timedelta :: "pyval \<Rightarrow> string"
  format_time :: "pyval \<Rightarrow> string"
  format_datetime :: "pyval \<Rightarrow> string"
  str_other :: "pyval \<Rightarrow> string"
  get_value_sql ::
    "string option \<Rightarrow> string option \<Rightarrow> string parameters option \<Rightarrow> 'k \<Rightarrow> pyval \<Rightarrow> string"
  format_alias_sql :: "string \<Rightarrow> string option \<Rightarrow> string option \<Rightarrow> 'k \<Rightarrow> string"
  get_function_sql :: "string \<Rightarrow> string list \<Rightarrow> string"
  schema_get_sql :: "string \<Rightarrow> string option \<Rightarrow> 'k \<Rightarrow> string"
  query_get_sql :: "string list \<Rightarrow> string"

text \<open>\<^verbatim>\<open>str(value)\<close> for a payload that is neither a string nor \<^verbatim>\<open>None\<close>.\<close>

definition py_str :: "'k env \<Rightarrow> pyval \<Rightarrow> string" where
  "py_str E v =
     (case v of
        VInt i \<Rightarrow> str_int i
      | VBool b \<Rightarrow> (if b then ''True'' else ''False'')
      | _ \<Rightarrow> str_other E v)"

text \<open>
  \<^verbatim>\<open>conversion_column_value(value, convert_to_date)\<close>. Indexing an empty string
  raises \<^verbatim>\<open>IndexError\<close>; the first test of line 133 is guarded by the emptiness
  check before it, the test of line 142 reads the value after the outer quotes were
  stripped.
\<close>

definition conversion_column_value :: "'k env \<Rightarrow> pyval \<Rightarrow> bool \<Rightarrow> py_error + string" where
  "conversion_column_value E v convert_to_date =
     (case v of
        VStr s \<Rightarrow>
          (if s = [] then Inr [sq, sq]
           else
             (let value = (if hd s = sq \<and> last s = sq then py_slice s 1 (- 1) else s)
              in if convert_to_date \<and> re_search pat_datetime_frac value
                   then Inr (fmt_timestamp_ff6 value)
                 else if convert_to_date \<and> re_search pat_datetime value
                   then Inr (fmt_timestamp value)
                 else if convert_to_date \<and> re_search pat_date value
                   then Inr (fmt_date value)
                 else if value = [] then Inl IndexError
                 else if hd value \<noteq> sq \<or> last value \<noteq> sq
                   then Inr ([sq] @ str_replace value sq [sq, sq] @ [sq])
                 else Inr value))
      | VNone \<Rightarrow> Inr ''NULL''
      | _ \<Rightarrow> Inr (py_str E v))"

section \<open>ParameterizedValueWrapper\<close>

record wrapper =
  wvalue :: pyval
  walias :: "string option"

text \<open>
  Lines 86 to 92: the library's literal text of the payload, then the alias formatting.
\<close>

definition standard_sql ::
  "'k env \<Rightarrow> wrapper \<Rightarrow> string option \<Rightarrow> string \<Rightarrow> string parameters option \<Rightarrow> 'k \<Rightarrow> string"
where
  "standard_sql E self quote_char secondary_quote_char param_wrapper kwargs =
     format_alias_sql E
       (get_value_sql E quote_char (Some secondary_quote_char) param_wrapper kwargs (wvalue self))
       (walias self) quote_char kwargs"

text \<open>
  Lines 64 to 92, the last branch of \<^verbatim>\<open>get_sql\<close>. The temporal payloads are
  overwritten by their formatted text; with \<^verbatim>\<open>frappe.is_oracledb\<close> set the method
  returns at once, without reaching line 92. The debugging \<^verbatim>\<open>print\<close> calls write to
  standard output only and are left out.
\<close>

definition get_sql_other ::
  "'k env \<Rightarrow> wrapper \<Rightarrow> string option \<Rightarrow> string \<Rightarrow> string parameters option \<Rightarrow> 'k
     \<Rightarrow> py_error + (string \<times> wrapper \<times> string parameters option)"
where
  "get_sql_other E self quote_char secondary_quote_char param_wrapper kwargs =
     (case wvalue self of
        VTimedelta d s u \<Rightarrow>
          (let text = format_timedelta E (wvalue self); self' = self\<lparr>wvalue := VStr text\<rparr>
           in if is_oracledb E then Inr (fmt_timestamp_ff6 text, self', param_wrapper)
              else Inr (standard_sql E self' quote_char secondary_quote_char param_wrapper kwargs,
                        self', param_wrapper))
      | VTime h m s u \<Rightarrow>
          (let text = format_time E (wvalue self); self' = self\<lparr>wvalue := VStr text\<rparr>
           in if is_oracledb E then Inr (fmt_timestamp_ff6 text, self', param_wrapper)
              else Inr (standard_sql E self' quote_char secondary_quote_char param_wrapper kwargs,
                        self', param_wrapper))
      | VDatetime y mo d h mi s u \<Rightarrow>
          (let text = format_datetime E (wvalue self); self' = self\<lparr>wvalue := VStr text\<rparr>
           in if is_oracledb E then Inr (fmt_timestamp_ff6 text, self', param_wrapper)
              else Inr (standard_sql E self' quote_char secondary_quote_char param_wrapper kwargs,
                        self', param_wrapper))
      | _ \<Rightarrow>
          (if is_oracledb E then
             (case conversion_column_value E (wvalue self) True of
                Inl e \<Rightarrow> Inl e
              | Inr text \<Rightarrow> Inr (text, self\<lparr>wvalue := VStr text\<rparr>, param_wrapper))
           else Inr (standard_sql E self quote_char secondary_quote_char param_wrapper kwargs,
                     self, param_wrapper)))"

text \<open>
  \<^verbatim>\<open>ParameterizedValueWrapper.get_sql\<close>. It returns the SQL text, the wrapper (whose
  \<^verbatim>\<open>value\<close> attribute the method may have assigned) and the parameter store. A
  \<^verbatim>\<open>NamedParameterWrapper\<close> object is always true in a condition, so
  \<^verbatim>\<open>param_wrapper and ...\<close> asks whether a store was passed.
\<close>

definition pvw_get_sql ::
  "'k env \<Rightarrow> wrapper \<Rightarrow> string option \<Rightarrow> string \<Rightarrow> string parameters option \<Rightarrow> 'k
     \<Rightarrow> py_error + (string \<times> wrapper \<times> string parameters option)"
where
  "pvw_get_sql E self quote_char secondary_quote_char param_wrapper kwargs =
     (case wvalue self of
        VStr s \<Rightarrow>
          (case param_wrapper of
             Some parameters \<Rightarrow>
               (if startswith s ''to_timestamp''
                then Inr (format_alias_sql E s (walias self) quote_char kwargs, self, param_wrapper)
                else
                  (let value_sql = get_value_sql E quote_char None None kwargs (VStr s);
                       (sql, parameters') = npw_get_sql parameters value_sql
                   in Inr (format_alias_sql E sql (walias self) quote_char kwargs, self,
                           Some parameters')))
           | None \<Rightarrow>
               (if startswith s ''to_timestamp'' \<or> startswith s ''to_date''
                then Inr (format_alias_sql E s (walias self) quote_char kwargs, self, param_wrapper)
                else get_sql_other E self quote_char secondary_quote_char param_wrapper kwargs))
      | _ \<Rightarrow> get_sql_other E self quote_char secondary_quote_char param_wrapper kwargs)"

section \<open>ParameterizedFunction and SubQuery\<close>

text \<open>
  A term is a value wrapper, a function call (name, schema, arguments, alias) or a
  subquery (the terms of the nested statement, alias).
\<close>

datatype sql_term =
    TValue wrapper
  | TFunction string "string option" "sql_term list" "string option"
  | TSubQuery "sql_term list" "string option"

text \<open>
  Modelled from the spec: the loop of \<^verbatim>\<open>Function.get_function_sql\<close> over the
  arguments and the walk of the nested statement's \<^verbatim>\<open>get_sql\<close> over its terms belong
  to the query-builder library and are not in the module. \<open>render_terms\<close> follows the
  specification (sections 4.5 and 4.6): each argument, and each term of a nested
  statement, is rendered in order, left to right, with the same store. Arguments are
  rendered with \<^verbatim>\<open>with_alias=False\<close>.

  The equations of \<open>render\<close> are the module's: \<^verbatim>\<open>ParameterizedFunction.get_sql\<close>
  (lines 102 to 125) hands \<^verbatim>\<open>param_wrapper\<close> to \<^verbatim>\<open>get_function_sql\<close>, puts the
  schema in front and formats the alias when \<^verbatim>\<open>with_alias\<close> is set;
  \<^verbatim>\<open>SubQuery.get_sql\<close> (lines 164 to 166) hands every keyword argument to the nested
  statement and applies no alias. The same \<^verbatim>\<open>secondary_quote_char\<close> is passed to every
  wrapper; it reaches only \<^verbatim>\<open>get_value_sql\<close>.
\<close>

fun render ::
  "'k env \<Rightarrow> string option \<Rightarrow> string \<Rightarrow> 'k \<Rightarrow> bool \<Rightarrow> sql_term \<Rightarrow> string parameters option
     \<Rightarrow> py_error + (string \<times> string parameters option)"
and render_terms ::
  "'k env \<Rightarrow> string option \<Rightarrow> string \<Rightarrow> 'k \<Rightarrow> bool \<Rightarrow> sql_term list \<Rightarrow> string parameters option
     \<Rightarrow> py_error + (string list \<times> string parameters option)"
where
  "render E quote_char sqc kwargs with_alias (TValue w) param_wrapper =
     (case pvw_get_sql E w quote_char sqc param_wrapper kwargs of
        Inl e \<Rightarrow> Inl e
      | Inr (sql, w', param_wrapper') \<Rightarrow> Inr (sql, param_wrapper'))"
| "render E quote_char sqc kwargs with_alias (TFunction name schema args alias) param_wrapper =
     (case render_terms E quote_char sqc kwargs False args param_wrapper of
        Inl e \<Rightarrow> Inl e
      | Inr (arg_sqls, param_wrapper') \<Rightarrow>
          (let function_sql = get_function_sql E name arg_sqls;
               function_sql =
                 (case schema of
                    None \<Rightarrow> function_sql
                  | Some sc \<Rightarrow> schema_get_sql E sc quote_char kwargs @ ''.'' @ function_sql)
           in Inr (if with_alias then format_alias_sql E function_sql alias quote_char kwargs
                   else function_sql,
                   param_wrapper')))"
| "render E quote_char sqc kwargs with_alias (TSubQuery terms alias) param_wrapper =
     (case render_terms E quote_char sqc kwargs with_alias terms param_wrapper of
        Inl e \<Rightarrow> Inl e
      | Inr (sqls, param_wrapper') \<Rightarrow> Inr (query_get_sql E sqls, param_wrapper'))"
| "render_terms E quote_char sqc kwargs with_alias [] param_wrapper = Inr ([], param_wrapper)"
| "render_terms E quote_char sqc kwargs with_alias (t # ts) param_wrapper =
     (case render E quote_char sqc kwargs with_alias t param_wrapper of
        Inl e \<Rightarrow> Inl e
      | Inr (sql, param_wrapper') \<Rightarrow>
          (case render_terms E quote_char sqc kwargs with_alias ts param_wrapper' of
             Inl e \<Rightarrow> Inl e
           | Inr (sqls, param_wrapper'') \<Rightarrow> Inr (sql # sqls, param_wrapper'')))"

text \<open>
  The texts a render pass with a store binds, in the order the traversal meets them: one
  for every string payload that does not start with \<^verbatim>\<open>to_timestamp\<close>.
\<close>

fun bound_texts :: "'k env \<Rightarrow> string option \<Rightarrow> 'k \<Rightarrow> sql_term \<Rightarrow> string list"
and bound_texts_list :: "'k env \<Rightarrow> string option \<Rightarrow> 'k \<Rightarrow> sql_term list \<Rightarrow> string list"
where
  "bound_texts E quote_char kwargs (TValue w) =
     (case wvalue w of
        VStr s \<Rightarrow>
          (if startswith s ''to_timestamp'' then []
           else [get_value_sql E quote_char None None kwargs (VStr s)])
      | _ \<Rightarrow> [])"
| "bound_texts E quote_char kwargs (TFunction name schema args alias) =
     bound_texts_list E quote_char kwargs args"
| "bound_texts E quote_char kwargs (TSubQuery terms alias) =
     bound_texts_list E quote_char kwargs terms"
| "bound_texts_list E quote_char kwargs [] = []"
| "bound_texts_list E quote_char kwargs (t # ts) =
     bound_texts E quote_char kwargs t @ bound_texts_list E quote_char kwargs ts"

text \<open>
  The store after binding the given texts one after the other, each under the key that
  follows the number of entries.
\<close>

fun bind_all :: "string parameters \<Rightarrow> string list \<Rightarrow> string parameters" where
  "bind_all ps [] = ps"
| "bind_all ps (x # xs) = bind_all (ps @ [(param_name (length ps + 1), x)]) xs"

text \<open>
  A sample environment for evaluating the definitions at concrete inputs. Its library
  functions are simple stand-ins: literal text is the payload between the secondary
  quote characters when these are passed, an alias follows the text after a blank, a
  call is the name and the comma-separated arguments in parentheses.
\<close>

fun str_join :: "string \<Rightarrow> string list \<Rightarrow> string" where
  "str_join sep [] = []"
| "str_join sep [x] = x"
| "str_join sep (x # y # ys) = x @ sep @ str_join sep (y # ys)"

definition example_env :: "bool \<Rightarrow> unit env" where
  "example_env oracle =
     \<lparr> is_oracledb = oracle,
       format_timedelta = (\<lambda>v. ''1:02:03''),
       format_time = (\<lambda>v. ''04:05:06''),
       format_datetime = (\<lambda>v. ''2024-01-15 10:30:00.000000''),
       str_other = (\<lambda>v. ''2024-01-15''),
       get_value_sql =
         (\<lambda>quote_char secondary_quote_char param_wrapper kwargs v.
            case v of
              VStr s \<Rightarrow> (case secondary_quote_char of None \<Rightarrow> s | Some q \<Rightarrow> q @ s @ q)
            | VInt i \<Rightarrow> str_int i
            | VNone \<Rightarrow> ''null''
            | _ \<Rightarrow> ''?''),
       format_alias_sql =
         (\<lambda>sql alias quote_char kwargs.
            case alias of None \<Rightarrow> sql | Some a \<Rightarrow> sql @ '' '' @ a),
       get_function_sql = (\<lambda>name args. name @ ''('' @ str_join '','' args @ '')''),
       schema_get_sql = (\<lambda>schema quote_char kwargs. schema),
       query_get_sql = (\<lambda>sqls. ''SELECT '' @ str_join '','' sqls) \<rparr>"

section \<open>Notions used in the statements\<close>

text \<open>The payload is a Python \<^verbatim>\<open>str\<close>.\<close>

definition is_str :: "pyval \<Rightarrow> bool" where
  "is_str v = (case v of VStr s \<Rightarrow> True | _ \<Rightarrow> False)"

text \<open>The payload is a \<^verbatim>\<open>timedelta\<close>, a \<^verbatim>\<open>time\<close> or a \<^verbatim>\<open>datetime\<close>.\<close>

definition is_temporal :: "pyval \<Rightarrow> bool" where
  "is_temporal v =
     (case v of VTimedelta d s u \<Rightarrow> True | VTime h m s u \<Rightarrow> True
      | VDatetime y mo d h mi s u \<Rightarrow> True | _ \<Rightarrow> False)"

text \<open>The text the formatter of its kind gives a temporal payload.\<close>

definition temporal_text :: "'k env \<Rightarrow> pyval \<Rightarrow> string" where
  "temporal_text E v =
     (case v of VTimedelta d s u \<Rightarrow> format_timedelta E v | VTime h m s u \<Rightarrow> format_time E v
      | _ \<Rightarrow> format_datetime E v)"

text \<open>The text starts with one of the two constructor prefixes.\<close>

definition is_raw_sql :: "string \<Rightarrow> bool" where
  "is_raw_sql s = (startswith s ''to_timestamp'' \<or> startswith s ''to_date'')"

text \<open>The text is not empty and both its first and its last character are a single quote.\<close>

definition quote_delimited :: "string \<Rightarrow> bool" where
  "quote_delimited s = (s \<noteq> [] \<and> hd s = sq \<and> last s = sq)"

text \<open>One of the three patterns is found in the text.\<close>

definition temporal_match :: "string \<Rightarrow> bool" where
  "temporal_match v =
     (re_search pat_datetime_frac v \<or> re_search pat_datetime v \<or> re_search pat_date v)"

text \<open>The payloads that a call of \<^verbatim>\<open>get_sql\<close> leaves in the wrapper: a string that is bound or passed through, and, with the Oracle flag off, every payload that is not temporal.\<close>

definition keeps_payload :: "'k env \<Rightarrow> pyval \<Rightarrow> string parameters option \<Rightarrow> bool" where
  "keeps_payload E v param_wrapper =
     (case v of
        VStr s \<Rightarrow> param_wrapper \<noteq> None \<or> is_raw_sql s \<or> \<not> is_oracledb E
      | VTimedelta d s u \<Rightarrow> False
      | VTime h m s u \<Rightarrow> False
      | VDatetime y mo d h mi s u \<Rightarrow> False
      | _ \<Rightarrow> \<not> is_oracledb E)"

text \<open>The text returned for a payload that is not a string when the Oracle flag is set.\<close>

definition oracle_text :: "'k env \<Rightarrow> pyval \<Rightarrow> string" where
  "oracle_text E v =
     (if is_temporal v then fmt_timestamp_ff6 (temporal_text E v)
      else if v = VNone then ''NULL''
      else py_str E v)"

section \<open>Parameter numbering\<close>

definition digit_val :: "char \<Rightarrow> nat" where
  "digit_val c = of_char c - 48"

definition nat_of_digits :: "string \<Rightarrow> nat" where
  "nat_of_digits s = foldl (\<lambda>a c. 10 * a + digit_val c) 0 s"

lemma digit_val_digit_char: "d < 10 \<Longrightarrow> digit_val (digit_char d) = d"
  by (simp add: digit_val_def digit_char_def)

lemma nat_of_digits_snoc: "nat_of_digits (s @ [c]) = 10 * nat_of_digits s + digit_val c"
  by (simp add: nat_of_digits_def)

lemma nat_of_digits_str_nat: "nat_of_digits (str_nat n) = n"
proof (induction n rule: str_nat.induct)
  case (1 n)
  show ?case
  proof (cases "n < 10")
    case True
    then show ?thesis
      by (subst str_nat.simps) (simp add: nat_of_digits_def digit_val_digit_char)
  next
    case False
    with 1 have "nat_of_digits (str_nat (n div 10)) = n div 10" by simp
    with False show ?thesis
      by (subst str_nat.simps) (simp add: nat_of_digits_snoc digit_val_digit_char)
  qed
qed

lemma str_nat_inj: "str_nat m = str_nat n \<Longrightarrow> m = n"
  by (metis nat_of_digits_str_nat)

lemma param_name_inj: "param_name m = param_name n \<Longrightarrow> m = n"
  by (simp add: param_name_def str_nat_inj)

lemma str_nat_length: "0 < length (str_nat n)"
  by (subst str_nat.simps) simp

lemma py_slice_2_m2: "py_slice (x # y # m @ [u, w]) 2 (- 2) = m"
  by (simp add: py_slice_def slice_index_def Let_def)

lemma param_key_slice: "py_slice (''%(param'' @ str_nat n @ '')s'') 2 (- 2) = param_name n"
  using py_slice_2_m2 [of "CHR ''%''" "CHR ''(''" "param_name n" "CHR '')''" "CHR ''s''"]
  by (simp add: param_name_def)

lemma npw_get_sql_eq:
  "npw_get_sql ps v = (placeholder (length ps + 1), dict_set ps (param_name (length ps + 1)) v)"
  using param_key_slice [of "length ps + 1"]
  by (simp add: npw_get_sql_def Let_def placeholder_def param_name_def)
lemma dict_set_fresh: "k \<notin> fst ` set kvs \<Longrightarrow> dict_set kvs k v = kvs @ [(k, v)]"
  by (induction kvs) auto

lemma keys_ok_fresh:
  assumes "keys_ok ps"
  shows "param_name (length ps + 1) \<notin> fst ` set ps"
proof
  assume "param_name (length ps + 1) \<in> fst ` set ps"
  then have "param_name (length ps + 1) \<in> set (map fst ps)" by simp
  with assms have "param_name (length ps + 1) \<in> param_name ` {1 ..< Suc (length ps)}"
    by (simp add: keys_ok_def del: upt_Suc)
  then obtain i where i: "i \<in> {1 ..< Suc (length ps)}" "param_name (length ps + 1) = param_name i"
    by blast
  from i(2) have "length ps + 1 = i" by (rule param_name_inj)
  with i(1) show False by simp
qed

lemma npw_get_sql_append:
  "keys_ok ps \<Longrightarrow>
     npw_get_sql ps v = (placeholder (length ps + 1), ps @ [(param_name (length ps + 1), v)])"
  using keys_ok_fresh [of ps] dict_set_fresh [of "param_name (length ps + 1)" ps v]
  by (simp add: npw_get_sql_eq)

lemma keys_ok_append:
  "keys_ok ps \<Longrightarrow> keys_ok (ps @ [(param_name (length ps + 1), v)])"
  by (simp add: keys_ok_def)
lemma keys_ok_distinct: "keys_ok ps \<Longrightarrow> distinct (map fst ps)"
  by (simp add: keys_ok_def distinct_map inj_on_def param_name_inj del: upt_Suc)



lemma bind_all_append: "bind_all ps (xs @ ys) = bind_all (bind_all ps xs) ys"
  by (induction xs arbitrary: ps) simp_all

lemma keys_ok_bind_all: "keys_ok ps \<Longrightarrow> keys_ok (bind_all ps texts)"
proof (induction texts arbitrary: ps)
  case Nil
  then show ?case by simp
next
  case (Cons x xs)
  from Cons.prems have "keys_ok (ps @ [(param_name (length ps + 1), x)])"
    by (rule keys_ok_append)
  then show ?case
    using Cons.IH by simp
qed

lemma bind_all_zip:
  "bind_all ps texts =
     ps @ zip (map param_name [Suc (length ps) ..< Suc (length ps + length texts)]) texts"
proof (induction texts arbitrary: ps)
  case Nil
  then show ?case by simp
next
  case (Cons x xs)
  have "[Suc (length ps) ..< Suc (length ps + length (x # xs))] =
        Suc (length ps) # [Suc (Suc (length ps)) ..< Suc (Suc (length ps) + length xs)]"
    by (simp add: upt_conv_Cons del: upt_Suc)
  then show ?case
    using Cons.IH [of "ps @ [(param_name (length ps + 1), x)]"]
    by (simp del: upt_Suc)
qed

lemma pvw_get_sql_param:
  assumes "keys_ok ps"
  shows "\<exists>sql w'. pvw_get_sql E w qc sqc (Some ps) kw =
           Inr (sql, w', Some (bind_all ps (bound_texts E qc kw (TValue w))))"
proof (cases "wvalue w")
  case (VStr s)
  then show ?thesis using assms
    by (simp add: pvw_get_sql_def npw_get_sql_append Let_def)
next
  case VNone
  then show ?thesis
    by (simp add: pvw_get_sql_def get_sql_other_def conversion_column_value_def)
next
  case (VBool b)
  then show ?thesis
    by (simp add: pvw_get_sql_def get_sql_other_def conversion_column_value_def)
next
  case (VInt i)
  then show ?thesis
    by (simp add: pvw_get_sql_def get_sql_other_def conversion_column_value_def)
next
  case (VFloat m e)
  then show ?thesis
    by (simp add: pvw_get_sql_def get_sql_other_def conversion_column_value_def)
next
  case (VDate y m d)
  then show ?thesis
    by (simp add: pvw_get_sql_def get_sql_other_def conversion_column_value_def)
next
  case (VTime h m s u)
  then show ?thesis
    by (simp add: pvw_get_sql_def get_sql_other_def Let_def)
next
  case (VTimedelta d s u)
  then show ?thesis
    by (simp add: pvw_get_sql_def get_sql_other_def Let_def)
next
  case (VDatetime y mo d h mi s u)
  then show ?thesis
    by (simp add: pvw_get_sql_def get_sql_other_def Let_def)
qed


lemma keys_ok_empty: "keys_ok []"
  by (simp add: keys_ok_def)

lemma render_terms_bind:
  assumes IH: "\<And>t ps. t \<in> set ts \<Longrightarrow> keys_ok ps \<Longrightarrow>
             \<exists>sql. render E qc sqc kw wa t (Some ps) = Inr (sql, Some (bind_all ps (bound_texts E qc kw t)))"
    and ok: "keys_ok ps"
  shows "\<exists>sqls. render_terms E qc sqc kw wa ts (Some ps) =
           Inr (sqls, Some (bind_all ps (bound_texts_list E qc kw ts)))"
  using IH ok
proof (induction ts arbitrary: ps)
  case Nil
  then show ?case by (simp add:)
next
  case (Cons t ts)
  from Cons.prems obtain sql where
    r: "render E qc sqc kw wa t (Some ps) = Inr (sql, Some (bind_all ps (bound_texts E qc kw t)))"
    by (meson list.set_intros(1))
  have ok': "keys_ok (bind_all ps (bound_texts E qc kw t))"
    using Cons.prems(2) by (rule keys_ok_bind_all)
  have "\<exists>sqls. render_terms E qc sqc kw wa ts (Some (bind_all ps (bound_texts E qc kw t))) =
           Inr (sqls, Some (bind_all (bind_all ps (bound_texts E qc kw t)) (bound_texts_list E qc kw ts)))"
    using Cons.prems(1) ok' by (intro Cons.IH) auto
  then obtain sqls where
    rs: "render_terms E qc sqc kw wa ts (Some (bind_all ps (bound_texts E qc kw t))) =
           Inr (sqls, Some (bind_all (bind_all ps (bound_texts E qc kw t)) (bound_texts_list E qc kw ts)))"
    by blast
  show ?case
    by (simp add: r rs bind_all_append)
qed

lemma render_bind:
  "keys_ok ps \<Longrightarrow>
     \<exists>sql. render E qc sqc kw wa t (Some ps) = Inr (sql, Some (bind_all ps (bound_texts E qc kw t)))"
proof (induction t arbitrary: ps wa)
  case (TValue w)
  from pvw_get_sql_param [OF TValue.prems, of E w qc sqc kw] show ?case
    by auto
next
  case (TFunction name schema args al)
  have "\<exists>sqls. render_terms E qc sqc kw False args (Some ps) =
           Inr (sqls, Some (bind_all ps (bound_texts_list E qc kw args)))"
    using TFunction.IH TFunction.prems by (intro render_terms_bind) auto
  then show ?case
    by (auto simp add: Let_def)
next
  case (TSubQuery ts al)
  have "\<exists>sqls. render_terms E qc sqc kw wa ts (Some ps) =
           Inr (sqls, Some (bind_all ps (bound_texts_list E qc kw ts)))"
    using TSubQuery.IH TSubQuery.prems by (intro render_terms_bind) auto
  then show ?case
    by auto
qed

text \<open>
  Claim C1. A render pass that starts with a fresh store ends without an exception, and
  the store then holds exactly the texts bound during the traversal (left to right, depth
  first, through function arguments and nested subqueries), the \<open>i\<close>-th of them under
  the key \<open>param<i>\<close>: the keys are \<open>param1\<close> .. \<open>paramk\<close> in insertion order, and no
  two of them are equal.
\<close>

theorem parameter_numbering:
  "(\<exists>sql. render E quote_char sqc kwargs with_alias t (Some npw_init) =
      Inr (sql, Some (zip (map param_name [1 ..< Suc (length (bound_texts E quote_char kwargs t))])
                          (bound_texts E quote_char kwargs t))))
   \<and> distinct (map param_name [1 ..< Suc (length (bound_texts E quote_char kwargs t))])"
proof
  from render_bind [OF keys_ok_empty, of E quote_char sqc kwargs with_alias t]
  show "\<exists>sql. render E quote_char sqc kwargs with_alias t (Some npw_init) =
      Inr (sql, Some (zip (map param_name [1 ..< Suc (length (bound_texts E quote_char kwargs t))])
                          (bound_texts E quote_char kwargs t)))"
    by (simp add: bind_all_zip npw_init_def del: upt_Suc)
  show "distinct (map param_name [1 ..< Suc (length (bound_texts E quote_char kwargs t))])"
    by (simp add: distinct_map inj_on_def param_name_inj del: upt_Suc)
qed


theorem parameter_numbering_witness:
  "\<exists>sql. render (example_env False) None [sq] () True
     (TFunction ''CONCAT'' None
        [TValue \<lparr>wvalue = VStr ''a'', walias = None\<rparr>,
         TValue \<lparr>wvalue = VInt 5, walias = None\<rparr>,
         TSubQuery
           [TValue \<lparr>wvalue = VStr ''b'', walias = None\<rparr>,
            TValue \<lparr>wvalue = VStr ''to_timestamp(x)'', walias = None\<rparr>] None,
         TValue \<lparr>wvalue = VStr ''c'', walias = None\<rparr>] None)
     (Some npw_init)
   = Inr (sql, Some [(''param1'', ''a''), (''param2'', ''b''), (''param3'', ''c'')])"
proof -
  let ?t = "TFunction ''CONCAT'' None
        [TValue \<lparr>wvalue = VStr ''a'', walias = None\<rparr>,
         TValue \<lparr>wvalue = VInt 5, walias = None\<rparr>,
         TSubQuery
           [TValue \<lparr>wvalue = VStr ''b'', walias = None\<rparr>,
            TValue \<lparr>wvalue = VStr ''to_timestamp(x)'', walias = None\<rparr>] None,
         TValue \<lparr>wvalue = VStr ''c'', walias = None\<rparr>] None"
  have e: "zip (map param_name [1 ..< Suc (length (bound_texts (example_env False) None () ?t))])
             (bound_texts (example_env False) None () ?t) =
           [(''param1'', ''a''), (''param2'', ''b''), (''param3'', ''c'')]"
    by code_simp
  from parameter_numbering [of "example_env False" None "[sq]" "()" True ?t]
  show ?thesis
    unfolding e by (rule conjunct1)
qed

section \<open>The value wrapper\<close>

lemma to_date_not_to_timestamp:
  assumes "startswith s ''to_date''"
  shows "\<not> startswith s ''to_timestamp''"
proof
  assume "startswith s ''to_timestamp''"
  then have "take (length ''to_timestamp'') s = ''to_timestamp''"
    unfolding startswith_def .
  then have "take (length ''to_date'') (take (length ''to_timestamp'') s) =
             take (length ''to_date'') ''to_timestamp''"
    by (rule arg_cong)
  then have "take (length ''to_date'') s = ''to_time''"
    by simp
  moreover from assms have "take (length ''to_date'') s = ''to_date''"
    unfolding startswith_def .
  ultimately show False by simp
qed

text \<open>
  Claim C2 says that a string starting with \<^verbatim>\<open>to_timestamp\<close> or \<^verbatim>\<open>to_date\<close> is
  returned unchanged in both modes. The branch of line 62 (no store) tests both prefixes,
  the branch of line 56 (a store is attached) tests \<^verbatim>\<open>to_timestamp\<close> only: with a
  store, a string starting with \<^verbatim>\<open>to_date\<close> is bound like any other text, and the
  SQL returned is the placeholder.
\<close>

theorem to_date_prefix_is_bound:
  "startswith s ''to_date'' \<Longrightarrow>
     pvw_get_sql E \<lparr>wvalue = VStr s, walias = a\<rparr> quote_char sqc (Some ps) kwargs =
       Inr (format_alias_sql E (placeholder (length ps + 1)) a quote_char kwargs,
            \<lparr>wvalue = VStr s, walias = a\<rparr>,
            Some (dict_set ps (param_name (length ps + 1))
                    (get_value_sql E quote_char None None kwargs (VStr s))))"
  by (simp add: pvw_get_sql_def to_date_not_to_timestamp npw_get_sql_eq Let_def)

theorem to_date_prefix_is_bound_witness:
  "pvw_get_sql (example_env False)
     \<lparr>wvalue = VStr ''to_date('2024-01-15', 'yyyy-mm-dd')'', walias = None\<rparr>
     None [sq] (Some npw_init) () =
   Inr (''%(param1)s'',
        \<lparr>wvalue = VStr ''to_date('2024-01-15', 'yyyy-mm-dd')'', walias = None\<rparr>,
        Some [(''param1'', ''to_date('2024-01-15', 'yyyy-mm-dd')'')])"
proof -
  have h: "startswith ''to_date('2024-01-15', 'yyyy-mm-dd')'' ''to_date''"
    by code_simp
  have e: "Inr (format_alias_sql (example_env False)
                  (placeholder (length (npw_init :: string parameters) + 1)) None None (),
                \<lparr>wvalue = VStr ''to_date('2024-01-15', 'yyyy-mm-dd')'', walias = None\<rparr>,
                Some (dict_set npw_init
                        (param_name (length (npw_init :: string parameters) + 1))
                        (get_value_sql (example_env False) None None None ()
                           (VStr ''to_date('2024-01-15', 'yyyy-mm-dd')'')))) =
           (Inr (''%(param1)s'',
                \<lparr>wvalue = VStr ''to_date('2024-01-15', 'yyyy-mm-dd')'', walias = None\<rparr>,
                Some [(''param1'', ''to_date('2024-01-15', 'yyyy-mm-dd')'')])
            :: py_error + (string \<times> wrapper \<times> string parameters option))"
    by code_simp
  from to_date_prefix_is_bound [OF h, of "example_env False" None None "[sq]" npw_init "()"] e
  show ?thesis
    by (rule trans)
qed



text \<open>
  Claim C4. With a store attached and the Oracle flag set, a timedelta, time or datetime
  payload adds no entry to the store: the payload is formatted to text by the formatter
  of its kind, and the SQL returned is the \<^verbatim>\<open>to_timestamp\<close> call around that text.
\<close>

theorem oracle_temporal_not_bound:
  "is_oracledb E \<Longrightarrow> is_temporal (wvalue self) \<Longrightarrow>
     pvw_get_sql E self quote_char sqc (Some ps) kwargs =
       Inr (''to_timestamp('' @ [sq] @ temporal_text E (wvalue self) @ [sq]
              @ '', 'yyyy-mm-dd hh24:mi:ss.ff6')'',
            self\<lparr>wvalue := VStr (temporal_text E (wvalue self))\<rparr>,
            Some ps)"
  by (cases "wvalue self")
     (simp_all add: is_temporal_def temporal_text_def pvw_get_sql_def get_sql_other_def
        fmt_timestamp_ff6_def Let_def)

theorem oracle_temporal_not_bound_witness:
  "pvw_get_sql (example_env True) \<lparr>wvalue = VTimedelta 0 3723 0, walias = None\<rparr> None [sq]
     (Some [(''param1'', ''x'')]) () =
   Inr (''to_timestamp('1:02:03', 'yyyy-mm-dd hh24:mi:ss.ff6')'',
        \<lparr>wvalue = VStr ''1:02:03'', walias = None\<rparr>,
        Some [(''param1'', ''x'')])"
proof -
  have h1: "is_oracledb (example_env True)"
    by code_simp
  have h2: "is_temporal (wvalue \<lparr>wvalue = VTimedelta 0 3723 0, walias = None\<rparr>)"
    by code_simp
  have e: "Inr (''to_timestamp('' @ [sq]
                  @ temporal_text (example_env True)
                      (wvalue \<lparr>wvalue = VTimedelta 0 3723 0, walias = None\<rparr>)
                  @ [sq] @ '', 'yyyy-mm-dd hh24:mi:ss.ff6')'',
                \<lparr>wvalue = VTimedelta 0 3723 0, walias = None\<rparr>
                  \<lparr>wvalue := VStr (temporal_text (example_env True)
                      (wvalue \<lparr>wvalue = VTimedelta 0 3723 0, walias = None\<rparr>))\<rparr>,
                Some [(''param1'', ''x'')]) =
           (Inr (''to_timestamp('1:02:03', 'yyyy-mm-dd hh24:mi:ss.ff6')'',
                 \<lparr>wvalue = VStr ''1:02:03'', walias = None\<rparr>,
                 Some [(''param1'', ''x'')])
            :: py_error + (string \<times> wrapper \<times> string parameters option))"
    by code_simp
  from oracle_temporal_not_bound [OF h1 h2, of None "[sq]" "[(''param1'', ''x'')]" "()"] e
  show ?thesis
    by (rule trans)
qed

text \<open>
  Claim C8. With a store attached, rendering a payload that is not a string (an integer,
  a float, a boolean, \<^verbatim>\<open>None\<close>, a date, a time, a timedelta, a datetime) ends without
  an exception and returns the store as it was passed.
\<close>

theorem non_string_not_bound:
  "\<not> is_str (wvalue self) \<Longrightarrow>
     \<exists>sql self'. pvw_get_sql E self quote_char sqc (Some ps) kwargs = Inr (sql, self', Some ps)"
  by (cases "wvalue self")
     (simp_all add: is_str_def pvw_get_sql_def get_sql_other_def conversion_column_value_def
        Let_def)

theorem non_string_not_bound_witness:
  "\<exists>sql self'. pvw_get_sql (example_env False) \<lparr>wvalue = VInt 42, walias = None\<rparr> None [sq]
     (Some [(''param1'', ''x'')]) () = Inr (sql, self', Some [(''param1'', ''x'')])"
proof -
  have h: "\<not> is_str (wvalue \<lparr>wvalue = VInt 42, walias = None\<rparr>)"
    by code_simp
  from non_string_not_bound [OF h, of "example_env False" None "[sq]" "[(''param1'', ''x'')]" "()"]
  show ?thesis .
qed

section \<open>The conversion heuristic: results\<close>

lemma not_digit_sq: "\<not> is_digit sq"
  by (simp add: is_digit_def sq_def)

lemma re_match_digit_head:
  "re_match (Digits (Suc n) # p) s \<Longrightarrow> s \<noteq> [] \<and> is_digit (hd s)"
  by (cases s) simp_all

lemma re_search_digit_head:
  assumes "re_search (Digits (Suc n) # p) s"
  shows "s \<noteq> [] \<and> is_digit (hd s)"
proof (cases "re_match (Digits (Suc n) # p) s")
  case True
  then show ?thesis by (rule re_match_digit_head)
next
  case False
  with assms have s: "s \<noteq> []" and m: "re_match (Digits (Suc n) # p) (butlast s)"
    by (simp_all add: re_search_def)
  from m have b: "butlast s \<noteq> [] \<and> is_digit (hd (butlast s))"
    by (rule re_match_digit_head)
  then have "hd (butlast s) = hd s"
    by (cases s) (simp_all split: if_splits)
  with s b show ?thesis by simp
qed

lemma pat_date_head: "pat_date = Digits (Suc 3) # tl pat_date"
  by (simp add: pat_date_def)

lemma pat_datetime_head: "pat_datetime = Digits (Suc 3) # tl pat_datetime"
  by (simp add: pat_datetime_def pat_date_def)

lemma pat_datetime_frac_head: "pat_datetime_frac = Digits (Suc 3) # tl pat_datetime_frac"
  by (simp add: pat_datetime_frac_def pat_datetime_def pat_date_def)

lemma temporal_match_head: "temporal_match s \<Longrightarrow> s \<noteq> [] \<and> hd s \<noteq> sq"
  using re_search_digit_head [of 3 "tl pat_date" s]
    re_search_digit_head [of 3 "tl pat_datetime" s]
    re_search_digit_head [of 3 "tl pat_datetime_frac" s]
    pat_date_head pat_datetime_head pat_datetime_frac_head not_digit_sq
  by (auto simp add: temporal_match_def)

lemma conv_frac:
  "re_search pat_datetime_frac s \<Longrightarrow>
     conversion_column_value E (VStr s) True = Inr (fmt_timestamp_ff6 s)"
  using temporal_match_head [of s]
  by (simp add: conversion_column_value_def temporal_match_def Let_def)

lemma conv_datetime:
  "\<not> re_search pat_datetime_frac s \<Longrightarrow> re_search pat_datetime s \<Longrightarrow>
     conversion_column_value E (VStr s) True = Inr (fmt_timestamp s)"
  using temporal_match_head [of s]
  by (simp add: conversion_column_value_def temporal_match_def Let_def)

lemma conv_date:
  "\<not> re_search pat_datetime_frac s \<Longrightarrow> \<not> re_search pat_datetime s \<Longrightarrow> re_search pat_date s \<Longrightarrow>
     conversion_column_value E (VStr s) True = Inr (fmt_date s)"
  using temporal_match_head [of s]
  by (simp add: conversion_column_value_def temporal_match_def Let_def)

lemma ex_date: "re_search pat_date ''2024-01-15''"
  by code_simp
lemma ex_date_n1: "\<not> re_search pat_datetime ''2024-01-15''"
  by code_simp
lemma ex_date_n2: "\<not> re_search pat_datetime_frac ''2024-01-15''"
  by code_simp
lemma ex_dt: "re_search pat_datetime ''2024-01-15 10:30:00''"
  by code_simp
lemma ex_dt_n: "\<not> re_search pat_datetime_frac ''2024-01-15 10:30:00''"
  by code_simp
lemma ex_frac: "re_search pat_datetime_frac ''2024-01-15 10:30:00.123456''"
  by code_simp

text \<open>
  Claim C5. The conversion heuristic maps \<^verbatim>\<open>2024-01-15\<close> to a \<^verbatim>\<open>to_date\<close> call,
  \<^verbatim>\<open>2024-01-15 10:30:00\<close> to a \<^verbatim>\<open>to_timestamp\<close> call with the seconds format and
  \<^verbatim>\<open>2024-01-15 10:30:00.123456\<close> to a \<^verbatim>\<open>to_timestamp\<close> call with the fraction
  format. In general a string in which one of the three patterns is found is rewritten
  to the constructor call of the first pattern found, the patterns being tried in the
  order fraction, datetime, date.
\<close>

theorem conversion_temporal:
  "conversion_column_value E (VStr ''2024-01-15'') True =
     Inr ''to_date('2024-01-15', 'yyyy-mm-dd')''
   \<and> conversion_column_value E (VStr ''2024-01-15 10:30:00'') True =
     Inr ''to_timestamp('2024-01-15 10:30:00', 'yyyy-mm-dd hh24:mi:ss')''
   \<and> conversion_column_value E (VStr ''2024-01-15 10:30:00.123456'') True =
     Inr ''to_timestamp('2024-01-15 10:30:00.123456', 'yyyy-mm-dd hh24:mi:ss.ff6')''
   \<and> (temporal_match s \<longrightarrow>
        conversion_column_value E (VStr s) True =
          Inr (if re_search pat_datetime_frac s then fmt_timestamp_ff6 s
               else if re_search pat_datetime s then fmt_timestamp s
               else fmt_date s))"
proof -
  have 1: "conversion_column_value E (VStr ''2024-01-15'') True =
     Inr ''to_date('2024-01-15', 'yyyy-mm-dd')''"
    using conv_date [OF ex_date_n2 ex_date_n1 ex_date, of E]
    by (simp add: fmt_date_def sq_def)
  have 2: "conversion_column_value E (VStr ''2024-01-15 10:30:00'') True =
     Inr ''to_timestamp('2024-01-15 10:30:00', 'yyyy-mm-dd hh24:mi:ss')''"
    using conv_datetime [OF ex_dt_n ex_dt, of E]
    by (simp add: fmt_timestamp_def sq_def)
  have 3: "conversion_column_value E (VStr ''2024-01-15 10:30:00.123456'') True =
     Inr ''to_timestamp('2024-01-15 10:30:00.123456', 'yyyy-mm-dd hh24:mi:ss.ff6')''"
    using conv_frac [OF ex_frac, of E]
    by (simp add: fmt_timestamp_ff6_def sq_def)
  have 4: "temporal_match s \<longrightarrow>
        conversion_column_value E (VStr s) True =
          Inr (if re_search pat_datetime_frac s then fmt_timestamp_ff6 s
               else if re_search pat_datetime s then fmt_timestamp s
               else fmt_date s)"
    using conv_frac [of s E] conv_datetime [of s E] conv_date [of s E]
    by (auto simp add: temporal_match_def)
  from 1 2 3 4 show ?thesis
    by blast
qed

theorem conversion_temporal_witness:
  "conversion_column_value (example_env True) (VStr ''1999-12-31 23:59:59'') True =
     Inr ''to_timestamp('1999-12-31 23:59:59', 'yyyy-mm-dd hh24:mi:ss')''"
proof -
  have h: "temporal_match ''1999-12-31 23:59:59''"
    by code_simp
  have e: "Inr (if re_search pat_datetime_frac ''1999-12-31 23:59:59''
                then fmt_timestamp_ff6 ''1999-12-31 23:59:59''
                else if re_search pat_datetime ''1999-12-31 23:59:59''
                then fmt_timestamp ''1999-12-31 23:59:59''
                else fmt_date ''1999-12-31 23:59:59'') =
           (Inr ''to_timestamp('1999-12-31 23:59:59', 'yyyy-mm-dd hh24:mi:ss')''
            :: py_error + string)"
    by code_simp
  from conversion_temporal [of "example_env True" "''1999-12-31 23:59:59''"] h
  have "conversion_column_value (example_env True) (VStr ''1999-12-31 23:59:59'') True =
          Inr (if re_search pat_datetime_frac ''1999-12-31 23:59:59''
               then fmt_timestamp_ff6 ''1999-12-31 23:59:59''
               else if re_search pat_datetime ''1999-12-31 23:59:59''
               then fmt_timestamp ''1999-12-31 23:59:59''
               else fmt_date ''1999-12-31 23:59:59'')"
    by blast
  from this e show ?thesis
    by (rule trans)
qed

lemma re_search_Nil:
  "\<not> re_search pat_date []" "\<not> re_search pat_datetime []" "\<not> re_search pat_datetime_frac []"
  by (simp_all add: re_search_def pat_date_def pat_datetime_def pat_datetime_frac_def
      eval_nat_numeral)

lemma py_slice_inner: "s \<noteq> [] \<Longrightarrow> py_slice s 1 (- 1) = butlast (tl s)"
  by (cases s) (simp_all add: py_slice_def slice_index_def Let_def butlast_conv_take)

lemma inner_empty_iff:
  "quote_delimited s \<and> py_slice s 1 (- 1) = [] \<longleftrightarrow> s = [sq] \<or> s = [sq, sq]"
proof (cases s)
  case Nil
  then show ?thesis by (simp add: quote_delimited_def)
next
  case (Cons x xs)
  then have "py_slice s 1 (- 1) = butlast xs"
    using py_slice_inner [of s] by simp
  then show ?thesis
    using Cons by (cases xs rule: rev_cases) (auto simp add: quote_delimited_def)
qed

lemma conv_raises_iff:
  "(\<exists>e. conversion_column_value E (VStr s) c = Inl e) \<longleftrightarrow>
     (quote_delimited s \<and> py_slice s 1 (- 1) = [])"
proof (cases "s = []")
  case True
  then show ?thesis
    by (simp add: conversion_column_value_def quote_delimited_def)
next
  case False
  show ?thesis
  proof (cases "hd s = sq \<and> last s = sq")
    case True
    with False show ?thesis
      by (simp add: conversion_column_value_def quote_delimited_def Let_def re_search_Nil)
  next
    case False
    with \<open>s \<noteq> []\<close> show ?thesis
      by (auto simp add: conversion_column_value_def quote_delimited_def Let_def)
  qed
qed

text \<open>
  Claim C7 says that the conversion heuristic never raises. It raises
  \<^verbatim>\<open>IndexError\<close> on exactly two inputs: the string that is one single quote and the
  string that is two single quotes. Both are quote-delimited, so line 134 strips them to
  the empty string, and line 142 then reads its first character. On every other input,
  string or not, the function returns a string.
\<close>

theorem conversion_raises_iff:
  "(\<exists>e. conversion_column_value E v convert_to_date = Inl e) \<longleftrightarrow>
     (v = VStr [sq] \<or> v = VStr [sq, sq])"
proof (cases v)
  case (VStr s)
  then show ?thesis
    using conv_raises_iff [of E s convert_to_date] inner_empty_iff [of s] by simp
qed (simp_all add: conversion_column_value_def)

theorem conversion_raises_iff_witness:
  "conversion_column_value (example_env True) (VStr [sq]) True = Inl IndexError"
proof -
  from conversion_raises_iff [of "example_env True" "VStr [sq]" True]
  obtain e where "conversion_column_value (example_env True) (VStr [sq]) True = Inl e"
    by blast
  then show ?thesis
    by (cases e) simp
qed

text \<open>
  Claim C6 says that a string that is already quote-delimited is returned as the original
  quoted text. The test of line 142 reads the value after line 134 has stripped the
  outer quotes, so for a quote-delimited input whose interior is not empty, is not itself
  quote-delimited and matches no temporal pattern, the interior is quoted again and
  every single quote in it is doubled: the quoted literal of \<^verbatim>\<open>O'Brien\<close>, in which the
  quote is already doubled, comes back with four quotes in the middle.
\<close>

theorem quoted_input_requoted:
  "quote_delimited s \<Longrightarrow> py_slice s 1 (- 1) = v \<Longrightarrow> v \<noteq> [] \<Longrightarrow> \<not> quote_delimited v \<Longrightarrow>
   \<not> temporal_match v \<Longrightarrow>
     conversion_column_value E (VStr s) convert_to_date =
       Inr ([sq] @ str_replace v sq [sq, sq] @ [sq])"
  by (auto simp add: conversion_column_value_def quote_delimited_def temporal_match_def Let_def)

theorem quoted_input_requoted_witness:
  "conversion_column_value (example_env True)
     (VStr ([sq] @ ''O'' @ [sq, sq] @ ''Brien'' @ [sq])) True =
   Inr ([sq] @ ''O'' @ [sq, sq, sq, sq] @ ''Brien'' @ [sq])"
proof -
  have h1: "quote_delimited ([sq] @ ''O'' @ [sq, sq] @ ''Brien'' @ [sq])"
    by code_simp
  have h2: "py_slice ([sq] @ ''O'' @ [sq, sq] @ ''Brien'' @ [sq]) 1 (- 1) =
            ''O'' @ [sq, sq] @ ''Brien''"
    by code_simp
  have h3: "''O'' @ [sq, sq] @ ''Brien'' \<noteq> []"
    by simp
  have h4: "\<not> quote_delimited (''O'' @ [sq, sq] @ ''Brien'')"
    by code_simp
  have h5: "\<not> temporal_match (''O'' @ [sq, sq] @ ''Brien'')"
    by code_simp
  have e: "Inr ([sq] @ str_replace (''O'' @ [sq, sq] @ ''Brien'') sq [sq, sq] @ [sq]) =
           (Inr ([sq] @ ''O'' @ [sq, sq, sq, sq] @ ''Brien'' @ [sq]) :: py_error + string)"
    by code_simp
  from quoted_input_requoted [OF h1 h2 h3 h4 h5, of "example_env True" True] e
  show ?thesis
    by (rule trans)
qed

section \<open>Payload and alias\<close>



lemma keeps_payload_not_temporal:
  "keeps_payload E v param_wrapper \<Longrightarrow> \<not> is_temporal v"
  by (cases v) (simp_all add: keeps_payload_def is_temporal_def)





text \<open>
  Claim C10 says that the alias formatting of line 92 is applied on every path. The four
  \<^verbatim>\<open>return\<close> statements of lines 70, 75, 80 and 83 leave the method before line 92:
  with the Oracle flag set, the text returned for a payload that is not a string is the
  constructor call or the converted text alone, whatever the alias of the wrapper.
\<close>

theorem oracle_paths_skip_alias:
  "is_oracledb E \<Longrightarrow> \<not> is_str v \<Longrightarrow>
     \<exists>self'. pvw_get_sql E \<lparr>wvalue = v, walias = a\<rparr> quote_char sqc param_wrapper kwargs =
       Inr (oracle_text E v, self', param_wrapper)"
  by (cases v)
     (simp_all add: is_temporal_def is_str_def oracle_text_def temporal_text_def pvw_get_sql_def
        get_sql_other_def conversion_column_value_def Let_def)

theorem oracle_paths_skip_alias_witness:
  "(\<exists>self'. pvw_get_sql (example_env True) \<lparr>wvalue = VInt 5, walias = Some ''x''\<rparr>
       None [sq] None () = Inr (''5'', self', None))
   \<and> format_alias_sql (example_env True) ''5'' (Some ''x'') None () = ''5 x''"
proof -
  have h1: "is_oracledb (example_env True)"
    by code_simp
  have h2: "\<not> is_str (VInt 5)"
    by code_simp
  have e: "oracle_text (example_env True) (VInt 5) = ''5''"
    by code_simp
  have f: "format_alias_sql (example_env True) ''5'' (Some ''x'') None () = ''5 x''"
    by code_simp
  from oracle_paths_skip_alias [OF h1 h2, of "Some ''x''" None "[sq]" None "()"]
  have "\<exists>self'. pvw_get_sql (example_env True) \<lparr>wvalue = VInt 5, walias = Some ''x''\<rparr>
       None [sq] None () = Inr (''5'', self', None)"
    unfolding e .
  from this f show ?thesis
    by (rule conjI)
qed

end
